theory Spec2Isabelle
  imports Main
begin

section \<open>The logging library's data, as far as logger.go touches it\<close>

text \<open>
  logger.go assembles values of the logging library's types \<^verbatim>\<open>zap.Config\<close>,
  \<^verbatim>\<open>zap.SamplingConfig\<close> and \<^verbatim>\<open>zapcore.EncoderConfig\<close>. The type declarations
  belong to the library; the records below carry the fields that logger.go sets or reads,
  under the library's field names. A field that logger.go never mentions keeps its Go zero
  value throughout and is left out, with one exception: \<open>DisableStacktrace\<close>, which
  \<^verbatim>\<open>newProductionConfig\<close> leaves at its zero value \<open>False\<close> and \<^verbatim>\<open>Initialize\<close>
  then sets.
\<close>

text \<open>The library's severities, in its own order.\<close>

datatype Level =
  DebugLevel | InfoLevel | WarnLevel | ErrorLevel | DPanicLevel | PanicLevel | FatalLevel

text \<open>
  The encoder fields hold functions of the library; each is modelled by the name of the
  function stored.
\<close>

datatype LevelEncoder =
  LowercaseLevelEncoder | LowercaseColorLevelEncoder | CapitalLevelEncoder | CapitalColorLevelEncoder

datatype TimeEncoder =
  EpochTimeEncoder | EpochMillisTimeEncoder | EpochNanosTimeEncoder
  | ISO8601TimeEncoder | RFC3339TimeEncoder | RFC3339NanoTimeEncoder

datatype DurationEncoder =
  SecondsDurationEncoder | NanosDurationEncoder | MillisDurationEncoder | StringDurationEncoder

datatype CallerEncoder = FullCallerEncoder | ShortCallerEncoder

record EncoderConfig =
  TimeKey :: string
  LevelKey :: string
  NameKey :: string
  CallerKey :: string
  MessageKey :: string
  StacktraceKey :: string
  LineEnding :: string
  EncodeLevel :: LevelEncoder
  EncodeTime :: TimeEncoder
  EncodeDuration :: DurationEncoder
  EncodeCaller :: CallerEncoder

record SamplingConfig =
  Initial :: int
  Thereafter :: int

text \<open>\<open>Sampling\<close> is a pointer in Go: \<open>None\<close> is the nil pointer, no sampling.\<close>

record Config =
  Level :: Level
  Development :: bool
  DisableStacktrace :: bool
  Sampling :: "SamplingConfig option"
  Encoding :: string
  EncoderConfig :: EncoderConfig
  OutputPaths :: "string list"
  ErrorOutputPaths :: "string list"

section \<open>logger.go: constants and the production preset\<close>

definition ProductionEnvName :: string where
  "ProductionEnvName = ''production''"

definition ProductionEnvShortName :: string where
  "ProductionEnvShortName = ''prod''"

text \<open>\<^verbatim>\<open>zapcore.DefaultLineEnding\<close>, the library's constant: a single line feed.\<close>

definition DefaultLineEnding :: string where
  "DefaultLineEnding = [CHR 0x0A]"

definition newProductionEncoderConfig :: EncoderConfig where
  "newProductionEncoderConfig =
     \<lparr> TimeKey = ''ts'',
       LevelKey = ''level'',
       NameKey = ''logger'',
       CallerKey = ''caller'',
       MessageKey = ''msg'',
       StacktraceKey = ''stacktrace'',
       LineEnding = DefaultLineEnding,
       EncodeLevel = CapitalLevelEncoder,
       EncodeTime = ISO8601TimeEncoder,
       EncodeDuration = SecondsDurationEncoder,
       EncodeCaller = ShortCallerEncoder \<rparr>"

definition newProductionConfig :: Config where
  "newProductionConfig =
     \<lparr> Level = InfoLevel,
       Development = False,
       DisableStacktrace = False,
       Sampling = Some \<lparr> Initial = 100, Thereafter = 100 \<rparr>,
       Encoding = ''console'',
       EncoderConfig = newProductionEncoderConfig,
       OutputPaths = [''stderr''],
       ErrorOutputPaths = [''stderr''] \<rparr>"

section \<open>What the logging library supplies\<close>

text \<open>
  The library and the process environment decide three things that logger.go does not:
  how the library's development preset formats and where it writes, and whether a given
  configuration can be built (the sinks open, the encoding is registered). They are the
  parameter \<open>z\<close> of everything below, so each result holds for every library behaviour.
\<close>

datatype BuildError = BuildError string

record zap =
  developmentEncoding :: string
  developmentEncoderConfig :: EncoderConfig
  developmentOutputPaths :: "string list"
  developmentErrorOutputPaths :: "string list"
  buildError :: "Config \<Rightarrow> BuildError option"

text \<open>
  Modelled from the spec: \<^verbatim>\<open>zap.NewDevelopmentConfig\<close> is the logging library's function
  and not part of the repository. The second row of the spec's decision table gives the
  preset minimum level Debug, development mode on and no sampling, and the spec speaks of
  the library's default of enabling stack traces, so \<open>DisableStacktrace\<close> starts
  \<open>False\<close>. Of the format and the targets the spec says only "human-readable
  development format": they come from \<open>z\<close>.
\<close>

definition NewDevelopmentConfig :: "zap \<Rightarrow> Config" where
  "NewDevelopmentConfig z =
     \<lparr> Level = DebugLevel,
       Development = True,
       DisableStacktrace = False,
       Sampling = None,
       Encoding = developmentEncoding z,
       EncoderConfig = developmentEncoderConfig z,
       OutputPaths = developmentOutputPaths z,
       ErrorOutputPaths = developmentErrorOutputPaths z \<rparr>"

text \<open>
  A logger of the library, seen from outside: the configuration it was built from and the
  number of stack frames it skips, beyond the library's own, when it reports the caller.
\<close>

record ZapLogger =
  conf :: Config
  callerSkip :: int

text \<open>
  Modelled from the spec: \<^verbatim>\<open>Config.Build\<close> is the library's. The spec's build step
  "constructs the underlying structured logger from the resolved configuration" or fails
  with a build error; a freshly built logger skips no additional frame.
\<close>

definition Build :: "zap \<Rightarrow> Config \<Rightarrow> BuildError + ZapLogger" where
  "Build z c =
     (case buildError z c of
        Some err \<Rightarrow> Inl err
      | None \<Rightarrow> Inr \<lparr> conf = c, callerSkip = 0 \<rparr>)"

text \<open>
  Modelled from the spec: \<^verbatim>\<open>zap.AddCallerSkip\<close> and \<^verbatim>\<open>Logger.WithOptions\<close> are the
  library's "caller-frame-skip configuration": the option adds its argument to the number
  of frames skipped, and \<open>WithOptions\<close> applies its options from left to right to a copy
  of the logger.
\<close>

datatype LoggerOption = AddCallerSkip int

fun applyOption :: "ZapLogger \<Rightarrow> LoggerOption \<Rightarrow> ZapLogger" where
  "applyOption l (AddCallerSkip n) = l\<lparr> callerSkip := callerSkip l + n \<rparr>"

definition WithOptions :: "ZapLogger \<Rightarrow> LoggerOption list \<Rightarrow> ZapLogger" where
  "WithOptions l opts = foldl applyOption l opts"

text \<open>
  Modelled from the spec: \<^verbatim>\<open>Logger.Sugar\<close> is the library's; it wraps a logger in the
  "sugared" variadic, printf and structured calling convention. \<open>Desugar\<close> gives the
  wrapped logger back.
\<close>

datatype SugaredLogger = Sugar (Desugar: ZapLogger)

text \<open>
  A stack frame: the function running in it, and the file and line it has reached. A call
  stack lists its frames from the innermost outwards.
\<close>

datatype frame = Frame string string nat

text \<open>
  Modelled from the spec: the library's caller report. The glossary's caller-frame skip is
  "the number of stack frames to omit when computing which source location to attribute a
  log line to". \<open>stk\<close> is the stack from which the logger's method was called: with
  nothing to omit the line is attributed to its innermost frame, the one that made the
  call. No caller is reported when the stack has too few frames.
\<close>

definition reportedCaller :: "ZapLogger \<Rightarrow> frame list \<Rightarrow> frame option" where
  "reportedCaller l stk =
     (if 0 \<le> callerSkip l \<and> nat (callerSkip l) < length stk
      then Some (stk ! nat (callerSkip l))
      else None)"

section \<open>logger.go: the global logger, Initialize and Default\<close>

text \<open>
  The package variable \<^verbatim>\<open>logger\<close> is an interface value; \<open>None\<close> is the nil interface
  it holds until the first assignment.
\<close>

record State =
  logger :: "SugaredLogger option"

definition initial :: State where
  "initial = \<lparr> logger = None \<rparr>"

text \<open>
  A Go panic is a value of the model: the one \<^verbatim>\<open>Initialize\<close> and \<^verbatim>\<open>Default\<close> raise
  with the build error, and the runtime's panic on a method call through a nil interface.
\<close>

datatype panic = BuildPanic BuildError | NilPointerDereference

text \<open>
  Lines 26 to 33 of \<^verbatim>\<open>Initialize\<close>: the configuration handed to \<^verbatim>\<open>Build\<close>.
\<close>

definition Initialize_conf :: "zap \<Rightarrow> string \<Rightarrow> Config" where
  "Initialize_conf z environment =
     (let conf = newProductionConfig;
          conf = (if environment \<noteq> ProductionEnvName \<and> environment \<noteq> ProductionEnvShortName
                  then NewDevelopmentConfig z else conf)
      in conf\<lparr> DisableStacktrace := True \<rparr>)"

text \<open>
  \<^verbatim>\<open>Initialize\<close> returns nothing; the model returns the panic, if any, and the state of
  the package variable afterwards. On a panic the assignment of line 39 has not run.
\<close>

definition Initialize :: "zap \<Rightarrow> string \<Rightarrow> State \<Rightarrow> panic option \<times> State" where
  "Initialize z environment st =
     (case Build z (Initialize_conf z environment) of
        Inl err \<Rightarrow> (Some (BuildPanic err), st)
      | Inr log \<Rightarrow> (None, st\<lparr> logger := Some (Sugar (WithOptions log [AddCallerSkip 1])) \<rparr>))"

text \<open>Lines 171 to 173 of \<^verbatim>\<open>Default\<close>: the configuration handed to \<^verbatim>\<open>Build\<close>.\<close>

definition Default_conf :: "zap \<Rightarrow> Config" where
  "Default_conf z = (NewDevelopmentConfig z)\<lparr> DisableStacktrace := True \<rparr>"

text \<open>
  \<^verbatim>\<open>Default\<close> takes and returns the state as well, so that what it does to the package
  variable can be stated.
\<close>

definition Default :: "zap \<Rightarrow> State \<Rightarrow> (panic + SugaredLogger) \<times> State" where
  "Default z st =
     (case Build z (Default_conf z) of
        Inl err \<Rightarrow> (Inl (BuildPanic err), st)
      | Inr log \<Rightarrow> (Inr (Sugar (WithOptions log [AddCallerSkip 1])), st))"

section \<open>logger.go: the eighteen facade functions\<close>

text \<open>
  Each facade function calls the method of its own name on the package variable and
  passes its arguments on; its body is that one call. The three argument shapes:
\<close>

datatype 'v arguments =
  Plain "'v list"
  | Formatted string "'v list"
  | Structured string "'v list"

text \<open>
  A method call through the package variable: the runtime panics when the interface is
  nil; otherwise the call reaches the logger held, and what it then writes is the
  library's business. The result names the logger reached, the severity of the method
  and the arguments passed.
\<close>

definition call :: "State \<Rightarrow> Level \<Rightarrow> 'v arguments \<Rightarrow> panic + (SugaredLogger \<times> Level \<times> 'v arguments)" where
  "call st lvl a =
     (case logger st of
        None \<Rightarrow> Inl NilPointerDereference
      | Some l \<Rightarrow> Inr (l, lvl, a))"

text \<open>
  The method reached runs on the stack it was called from, and the logger attributes the
  line to the frame that its caller skip selects there. The result adds that frame to
  what \<open>call\<close> gives.
\<close>

definition invoke ::
  "frame list \<Rightarrow> panic + (SugaredLogger \<times> Level \<times> 'v arguments) \<Rightarrow>
   panic + (SugaredLogger \<times> Level \<times> 'v arguments \<times> frame option)" where
  "invoke stk r =
     (case r of
        Inl p \<Rightarrow> Inl p
      | Inr (l, lvl, a) \<Rightarrow> Inr (l, lvl, a, reportedCaller (Desugar l) stk))"

text \<open>
  A facade function is called from the stack \<open>stk\<close> of its caller, whose innermost frame
  is the caller at the line of the call. It runs in a frame of its own, at the line of
  logger.go that holds its method call, and the method is called from there.
\<close>

definition Debug :: "frame list \<Rightarrow> State \<Rightarrow> 'v list \<Rightarrow> panic + (SugaredLogger \<times> Level \<times> 'v arguments \<times> frame option)" where
  "Debug stk st args =
     invoke (Frame ''sazabi.Debug'' ''logger.go'' 80 # stk) (call st DebugLevel (Plain args))"

definition Debugf :: "frame list \<Rightarrow> State \<Rightarrow> string \<Rightarrow> 'v list \<Rightarrow> panic + (SugaredLogger \<times> Level \<times> 'v arguments \<times> frame option)" where
  "Debugf stk st template args =
     invoke (Frame ''sazabi.Debugf'' ''logger.go'' 85 # stk) (call st DebugLevel (Formatted template args))"

definition Debugw :: "frame list \<Rightarrow> State \<Rightarrow> string \<Rightarrow> 'v list \<Rightarrow> panic + (SugaredLogger \<times> Level \<times> 'v arguments \<times> frame option)" where
  "Debugw stk st msg keysValues =
     invoke (Frame ''sazabi.Debugw'' ''logger.go'' 90 # stk) (call st DebugLevel (Structured msg keysValues))"

definition Info :: "frame list \<Rightarrow> State \<Rightarrow> 'v list \<Rightarrow> panic + (SugaredLogger \<times> Level \<times> 'v arguments \<times> frame option)" where
  "Info stk st args =
     invoke (Frame ''sazabi.Info'' ''logger.go'' 95 # stk) (call st InfoLevel (Plain args))"

definition Infof :: "frame list \<Rightarrow> State \<Rightarrow> string \<Rightarrow> 'v list \<Rightarrow> panic + (SugaredLogger \<times> Level \<times> 'v arguments \<times> frame option)" where
  "Infof stk st template args =
     invoke (Frame ''sazabi.Infof'' ''logger.go'' 100 # stk) (call st InfoLevel (Formatted template args))"

definition Infow :: "frame list \<Rightarrow> State \<Rightarrow> string \<Rightarrow> 'v list \<Rightarrow> panic + (SugaredLogger \<times> Level \<times> 'v arguments \<times> frame option)" where
  "Infow stk st msg keysValues =
     invoke (Frame ''sazabi.Infow'' ''logger.go'' 105 # stk) (call st InfoLevel (Structured msg keysValues))"

definition Warn :: "frame list \<Rightarrow> State \<Rightarrow> 'v list \<Rightarrow> panic + (SugaredLogger \<times> Level \<times> 'v arguments \<times> frame option)" where
  "Warn stk st args =
     invoke (Frame ''sazabi.Warn'' ''logger.go'' 110 # stk) (call st WarnLevel (Plain args))"

definition Warnf :: "frame list \<Rightarrow> State \<Rightarrow> string \<Rightarrow> 'v list \<Rightarrow> panic + (SugaredLogger \<times> Level \<times> 'v arguments \<times> frame option)" where
  "Warnf stk st template args =
     invoke (Frame ''sazabi.Warnf'' ''logger.go'' 115 # stk) (call st WarnLevel (Formatted template args))"

definition Warnw :: "frame list \<Rightarrow> State \<Rightarrow> string \<Rightarrow> 'v list \<Rightarrow> panic + (SugaredLogger \<times> Level \<times> 'v arguments \<times> frame option)" where
  "Warnw stk st msg keysValues =
     invoke (Frame ''sazabi.Warnw'' ''logger.go'' 120 # stk) (call st WarnLevel (Structured msg keysValues))"

definition Error :: "frame list \<Rightarrow> State \<Rightarrow> 'v list \<Rightarrow> panic + (SugaredLogger \<times> Level \<times> 'v arguments \<times> frame option)" where
  "Error stk st args =
     invoke (Frame ''sazabi.Error'' ''logger.go'' 125 # stk) (call st ErrorLevel (Plain args))"

definition Errorf :: "frame list \<Rightarrow> State \<Rightarrow> string \<Rightarrow> 'v list \<Rightarrow> panic + (SugaredLogger \<times> Level \<times> 'v arguments \<times> frame option)" where
  "Errorf stk st template args =
     invoke (Frame ''sazabi.Errorf'' ''logger.go'' 130 # stk) (call st ErrorLevel (Formatted template args))"

definition Errorw :: "frame list \<Rightarrow> State \<Rightarrow> string \<Rightarrow> 'v list \<Rightarrow> panic + (SugaredLogger \<times> Level \<times> 'v arguments \<times> frame option)" where
  "Errorw stk st msg keysValues =
     invoke (Frame ''sazabi.Errorw'' ''logger.go'' 135 # stk) (call st ErrorLevel (Structured msg keysValues))"

definition Fatal :: "frame list \<Rightarrow> State \<Rightarrow> 'v list \<Rightarrow> panic + (SugaredLogger \<times> Level \<times> 'v arguments \<times> frame option)" where
  "Fatal stk st args =
     invoke (Frame ''sazabi.Fatal'' ''logger.go'' 140 # stk) (call st FatalLevel (Plain args))"

definition Fatalf :: "frame list \<Rightarrow> State \<Rightarrow> string \<Rightarrow> 'v list \<Rightarrow> panic + (SugaredLogger \<times> Level \<times> 'v arguments \<times> frame option)" where
  "Fatalf stk st template args =
     invoke (Frame ''sazabi.Fatalf'' ''logger.go'' 145 # stk) (call st FatalLevel (Formatted template args))"

definition Fatalw :: "frame list \<Rightarrow> State \<Rightarrow> string \<Rightarrow> 'v list \<Rightarrow> panic + (SugaredLogger \<times> Level \<times> 'v arguments \<times> frame option)" where
  "Fatalw stk st msg keysValues =
     invoke (Frame ''sazabi.Fatalw'' ''logger.go'' 150 # stk) (call st FatalLevel (Structured msg keysValues))"

definition Panic :: "frame list \<Rightarrow> State \<Rightarrow> 'v list \<Rightarrow> panic + (SugaredLogger \<times> Level \<times> 'v arguments \<times> frame option)" where
  "Panic stk st args =
     invoke (Frame ''sazabi.Panic'' ''logger.go'' 155 # stk) (call st PanicLevel (Plain args))"

definition Panicf :: "frame list \<Rightarrow> State \<Rightarrow> string \<Rightarrow> 'v list \<Rightarrow> panic + (SugaredLogger \<times> Level \<times> 'v arguments \<times> frame option)" where
  "Panicf stk st template args =
     invoke (Frame ''sazabi.Panicf'' ''logger.go'' 160 # stk) (call st PanicLevel (Formatted template args))"

definition Panicw :: "frame list \<Rightarrow> State \<Rightarrow> string \<Rightarrow> 'v list \<Rightarrow> panic + (SugaredLogger \<times> Level \<times> 'v arguments \<times> frame option)" where
  "Panicw stk st msg keysValues =
     invoke (Frame ''sazabi.Panicw'' ''logger.go'' 165 # stk) (call st PanicLevel (Structured msg keysValues))"

text \<open>
  A caller that recovers from a panic of \<^verbatim>\<open>Initialize\<close>, as the repository's tests do
  with \<^verbatim>\<open>defer\<close> and \<^verbatim>\<open>recover\<close>, goes on with the state the call left. \<open>initialize_all\<close>
  is such a caller making one call per label, in order.
\<close>

definition initialize_all :: "zap \<Rightarrow> string list \<Rightarrow> State \<Rightarrow> State" where
  "initialize_all z environments st = foldl (\<lambda>s e. snd (Initialize z e s)) st environments"

text \<open>
  Two libraries to evaluate on: one that builds every configuration and whose development
  preset writes console lines to standard error, and one that builds none.
\<close>

definition zap_ok :: zap where
  "zap_ok =
     \<lparr> developmentEncoding = ''console'',
       developmentEncoderConfig = newProductionEncoderConfig\<lparr> TimeKey := ''T'' \<rparr>,
       developmentOutputPaths = [''stderr''],
       developmentErrorOutputPaths = [''stderr''],
       buildError = (\<lambda>c. None) \<rparr>"

definition zap_failing :: zap where
  "zap_failing = zap_ok\<lparr> buildError := (\<lambda>c. Some (BuildError ''no sink'')) \<rparr>"

section \<open>Shared facts about Initialize\<close>

lemma Initialize_conf_production:
  "environment = ''production'' \<or> environment = ''prod'' \<Longrightarrow>
   Initialize_conf z environment = newProductionConfig\<lparr> DisableStacktrace := True \<rparr>"
  by (auto simp add: Initialize_conf_def ProductionEnvName_def ProductionEnvShortName_def)

lemma Initialize_conf_development:
  "environment \<noteq> ''production'' \<Longrightarrow> environment \<noteq> ''prod'' \<Longrightarrow>
   Initialize_conf z environment = Default_conf z"
  by (simp add: Initialize_conf_def Default_conf_def ProductionEnvName_def ProductionEnvShortName_def)

lemma Initialize_success:
  "buildError z (Initialize_conf z environment) = None \<Longrightarrow>
   Initialize z environment st =
     (None, st\<lparr> logger := Some (Sugar \<lparr> conf = Initialize_conf z environment, callerSkip = 1 \<rparr>) \<rparr>)"
  by (simp add: Initialize_def Build_def WithOptions_def)

lemma Initialize_failure:
  "buildError z (Initialize_conf z environment) = Some err \<Longrightarrow>
   Initialize z environment st = (Some (BuildPanic err), st)"
  by (simp add: Initialize_def Build_def)

lemma Initialize_fst_None:
  "(fst (Initialize z environment st) = None) = (buildError z (Initialize_conf z environment) = None)"
  by (cases "buildError z (Initialize_conf z environment)")
     (simp_all add: Initialize_success Initialize_failure)

section \<open>The two rows of the decision table\<close>

text \<open>
  C1: for the labels "production" and "prod", the configuration that Initialize resolves has
  minimum level Info, development mode off, the sampling policy of 100 initial entries and
  every 100th thereafter, console encoding, and stack traces disabled.
\<close>

theorem Initialize_production_config:
  assumes "environment = ''production'' \<or> environment = ''prod''"
  shows "Level (Initialize_conf z environment) = InfoLevel
       \<and> Development (Initialize_conf z environment) = False
       \<and> Sampling (Initialize_conf z environment) = Some \<lparr> Initial = 100, Thereafter = 100 \<rparr>
       \<and> Encoding (Initialize_conf z environment) = ''console''
       \<and> DisableStacktrace (Initialize_conf z environment) = True"
  by (simp add: Initialize_conf_production [OF assms] newProductionConfig_def)

theorem Initialize_production_config_witness:
  "Level (Initialize_conf zap_ok ''prod'') = InfoLevel
   \<and> Development (Initialize_conf zap_ok ''prod'') = False
   \<and> Sampling (Initialize_conf zap_ok ''prod'') = Some \<lparr> Initial = 100, Thereafter = 100 \<rparr>
   \<and> Encoding (Initialize_conf zap_ok ''prod'') = ''console''
   \<and> DisableStacktrace (Initialize_conf zap_ok ''prod'') = True
   \<and> Level (Initialize_conf zap_failing ''production'') = InfoLevel"
  using Initialize_production_config [of "''prod''" zap_ok]
        Initialize_production_config [of "''production''" zap_failing]
  by simp

text \<open>
  C2: for every label other than "production" and "prod" (the empty string, "development",
  "test" and any other string among them), the configuration that Initialize resolves has
  minimum level Debug, development mode on, and no sampling policy.
\<close>

theorem Initialize_development_config:
  assumes "environment \<noteq> ''production''" and "environment \<noteq> ''prod''"
  shows "Level (Initialize_conf z environment) = DebugLevel
       \<and> Development (Initialize_conf z environment) = True
       \<and> Sampling (Initialize_conf z environment) = None"
  by (simp add: Initialize_conf_development [OF assms] Default_conf_def NewDevelopmentConfig_def)

theorem Initialize_development_config_witness:
  "Level (Initialize_conf zap_ok '''') = DebugLevel
   \<and> Development (Initialize_conf zap_ok ''development'') = True
   \<and> Sampling (Initialize_conf zap_ok ''test'') = None
   \<and> Level (Initialize_conf zap_ok ''asdf!'') = DebugLevel"
  using Initialize_development_config [of "''''" zap_ok]
        Initialize_development_config [of "''development''" zap_ok]
        Initialize_development_config [of "''test''" zap_ok]
        Initialize_development_config [of "''asdf!''" zap_ok]
  by simp

section \<open>Shared facts about Build, Default and the two sample libraries\<close>

lemma Build_Inr:
  "(Build z c = Inr log) = (buildError z c = None \<and> log = \<lparr> conf = c, callerSkip = 0 \<rparr>)"
  by (auto simp add: Build_def split: option.splits)

lemma Build_Inl: "(Build z c = Inl err) = (buildError z c = Some err)"
  by (auto simp add: Build_def split: option.splits)

lemma Default_success:
  "buildError z (Default_conf z) = None \<Longrightarrow>
   Default z st = (Inr (Sugar \<lparr> conf = Default_conf z, callerSkip = 1 \<rparr>), st)"
  by (simp add: Default_def Build_def WithOptions_def)

lemma Default_state: "snd (Default z st) = st"
  by (simp add: Default_def split: sum.split)

lemma zap_ok_builds: "buildError zap_ok c = None"
  by (simp add: zap_ok_def)

lemma zap_failing_fails: "buildError zap_failing c = Some (BuildError ''no sink'')"
  by (simp add: zap_failing_def)

text \<open>Calls of Initialize that all panic leave the package variable as it was.\<close>

lemma initialize_all_failing:
  "\<forall>e \<in> set environments. buildError z (Initialize_conf z e) \<noteq> None \<Longrightarrow>
   initialize_all z environments st = st"
proof (induction environments arbitrary: st)
  case Nil
  then show ?case by (simp add: initialize_all_def)
next
  case (Cons e es)
  from Cons.prems obtain err where "buildError z (Initialize_conf z e) = Some err"
    by auto
  then have "snd (Initialize z e st) = st"
    by (simp add: Initialize_failure)
  moreover have "initialize_all z es st = st"
    using Cons.IH Cons.prems by simp
  ultimately show ?case
    by (simp add: initialize_all_def)
qed

section \<open>Re-initialization\<close>

text \<open>
  C3: one configuration is active at a time. For any two labels, when both calls of
  Initialize return, the package variable after the second call holds the logger of the
  configuration resolved from the second label and nothing of the first: the second call
  ends as it would have without the first, and every facade call reaches a logger of the
  second configuration.
\<close>

theorem Initialize_replaces:
  assumes "fst (Initialize z first st) = None"
      and "fst (Initialize z second (snd (Initialize z first st))) = None"
  shows "logger (snd (Initialize z second (snd (Initialize z first st)))) =
           Some (Sugar \<lparr> conf = Initialize_conf z second, callerSkip = 1 \<rparr>)
       \<and> Initialize z second (snd (Initialize z first st)) = Initialize z second st
       \<and> call (snd (Initialize z second (snd (Initialize z first st)))) lvl a =
           Inr (Sugar \<lparr> conf = Initialize_conf z second, callerSkip = 1 \<rparr>, lvl, a)"
proof -
  from assms(1) have b1: "buildError z (Initialize_conf z first) = None"
    by (simp add: Initialize_fst_None)
  from assms(2) have b2: "buildError z (Initialize_conf z second) = None"
    by (simp add: Initialize_fst_None)
  show ?thesis
    by (simp add: Initialize_success [OF b1] Initialize_success [OF b2] call_def)
qed

theorem Initialize_replaces_witness:
  "fst (Initialize zap_ok ''prod'' initial) = None
   \<and> fst (Initialize zap_ok ''development'' (snd (Initialize zap_ok ''prod'' initial))) = None
   \<and> logger (snd (Initialize zap_ok ''development'' (snd (Initialize zap_ok ''prod'' initial)))) =
       Some (Sugar \<lparr> conf = Initialize_conf zap_ok ''development'', callerSkip = 1 \<rparr>)
   \<and> call (snd (Initialize zap_ok ''development'' (snd (Initialize zap_ok ''prod'' initial))))
         DebugLevel (Plain [''x'']) =
       Inr (Sugar \<lparr> conf = Initialize_conf zap_ok ''development'', callerSkip = 1 \<rparr>,
            DebugLevel, Plain [''x''])
   \<and> Level (Initialize_conf zap_ok ''prod'') = InfoLevel
   \<and> Level (Initialize_conf zap_ok ''development'') = DebugLevel"
proof -
  have h1: "fst (Initialize zap_ok ''prod'' initial) = None"
    by (simp add: Initialize_fst_None zap_ok_builds)
  have h2: "fst (Initialize zap_ok ''development'' (snd (Initialize zap_ok ''prod'' initial))) = None"
    by (simp add: Initialize_fst_None zap_ok_builds)
  have l1: "Level (Initialize_conf zap_ok ''prod'') = InfoLevel"
    by (simp add: Initialize_conf_production newProductionConfig_def)
  have l2: "Level (Initialize_conf zap_ok ''development'') = DebugLevel"
    by (simp add: Initialize_conf_development Default_conf_def NewDevelopmentConfig_def)
  note r = Initialize_replaces [OF h1 h2, of DebugLevel "Plain [''x'']"]
  from h1 h2 r l1 l2 show ?thesis
    by blast
qed

section \<open>Build failure\<close>

text \<open>
  C4: for every label, when building the logger from the resolved configuration fails,
  Initialize ends in a panic carrying the build error, which it does not recover from (the
  panic is its outcome, and the package variable is as before); when building succeeds,
  Initialize returns without a panic and the package variable holds the built logger, with
  the caller-skip option applied and sugared.
\<close>

theorem Initialize_panics_or_installs:
  "(Build z (Initialize_conf z environment) = Inl err \<longrightarrow>
      Initialize z environment st = (Some (BuildPanic err), st))
   \<and> (Build z (Initialize_conf z environment) = Inr log \<longrightarrow>
      fst (Initialize z environment st) = None
      \<and> logger (snd (Initialize z environment st)) =
          Some (Sugar (WithOptions log [AddCallerSkip 1])))"
  by (simp add: Initialize_def)

theorem Initialize_panics_or_installs_witness:
  "Build zap_failing (Initialize_conf zap_failing ''prod'') = Inl (BuildError ''no sink'')
   \<and> Initialize zap_failing ''prod'' initial = (Some (BuildPanic (BuildError ''no sink'')), initial)
   \<and> Build zap_ok (Initialize_conf zap_ok ''prod'') =
       Inr \<lparr> conf = Initialize_conf zap_ok ''prod'', callerSkip = 0 \<rparr>
   \<and> fst (Initialize zap_ok ''prod'' initial) = None
   \<and> logger (snd (Initialize zap_ok ''prod'' initial)) =
       Some (Sugar \<lparr> conf = Initialize_conf zap_ok ''prod'', callerSkip = 1 \<rparr>)"
  using Initialize_panics_or_installs
          [of zap_failing "''prod''" "BuildError ''no sink''" initial
              "\<lparr> conf = Initialize_conf zap_failing ''prod'', callerSkip = 0 \<rparr>"]
        Initialize_panics_or_installs
          [of zap_ok "''prod''" "BuildError ''no sink''" initial
              "\<lparr> conf = Initialize_conf zap_ok ''prod'', callerSkip = 0 \<rparr>"]
  by (simp add: Build_Inl Build_Inr zap_ok_builds zap_failing_fails WithOptions_def)

section \<open>The facade before initialization\<close>

text \<open>
  C5: as long as no call of Initialize has returned (none was made, or every one made
  panicked and the caller recovered), each of the eighteen facade functions, the plain,
  formatted and structured variant of Debug, Info, Warn, Error, Fatal and Panic, ends in
  the runtime's nil dereference panic, whatever its arguments and wherever it is called
  from: it neither does nothing nor initializes a logger.
\<close>

theorem facade_before_Initialize:
  assumes "\<forall>e \<in> set environments. buildError z (Initialize_conf z e) \<noteq> None"
      and "st = initialize_all z environments initial"
  shows "Debug stk st args = Inl NilPointerDereference
       \<and> Debugf stk st template args = Inl NilPointerDereference
       \<and> Debugw stk st msg args = Inl NilPointerDereference
       \<and> Info stk st args = Inl NilPointerDereference
       \<and> Infof stk st template args = Inl NilPointerDereference
       \<and> Infow stk st msg args = Inl NilPointerDereference
       \<and> Warn stk st args = Inl NilPointerDereference
       \<and> Warnf stk st template args = Inl NilPointerDereference
       \<and> Warnw stk st msg args = Inl NilPointerDereference
       \<and> Error stk st args = Inl NilPointerDereference
       \<and> Errorf stk st template args = Inl NilPointerDereference
       \<and> Errorw stk st msg args = Inl NilPointerDereference
       \<and> Fatal stk st args = Inl NilPointerDereference
       \<and> Fatalf stk st template args = Inl NilPointerDereference
       \<and> Fatalw stk st msg args = Inl NilPointerDereference
       \<and> Panic stk st args = Inl NilPointerDereference
       \<and> Panicf stk st template args = Inl NilPointerDereference
       \<and> Panicw stk st msg args = Inl NilPointerDereference"
proof -
  have "st = initial"
    using assms initialize_all_failing by simp
  then have nil: "call st lvl a = Inl NilPointerDereference" for lvl and a :: "'a arguments"
    by (simp add: call_def initial_def)
  show ?thesis
    unfolding Debug_def Debugf_def Debugw_def Info_def Infof_def Infow_def
      Warn_def Warnf_def Warnw_def Error_def Errorf_def Errorw_def
      Fatal_def Fatalf_def Fatalw_def Panic_def Panicf_def Panicw_def
    by (simp add: nil invoke_def)
qed

theorem facade_before_Initialize_witness:
  "Debug [] initial [''a''] = Inl NilPointerDereference
   \<and> Infof [Frame ''main.main'' ''main.go'' 7] initial ''%s'' [''a''] = Inl NilPointerDereference
   \<and> Panicw [Frame ''main.main'' ''main.go'' 7]
        (initialize_all zap_failing [''prod'', ''development''] initial) ''m'' [''k'', ''v'']
       = Inl NilPointerDereference"
proof -
  have a: "\<forall>e \<in> set []. buildError zap_failing (Initialize_conf zap_failing e) \<noteq> None"
    by simp
  have b: "initial = initialize_all zap_failing [] initial"
    by (simp add: initialize_all_def)
  have c: "\<forall>e \<in> set [''prod'', ''development''].
             buildError zap_failing (Initialize_conf zap_failing e) \<noteq> None"
    by (simp add: zap_failing_fails)
  show ?thesis
    using facade_before_Initialize [OF a b, of "[]" "[''a'']" "''%s''" "''m''"]
          facade_before_Initialize
            [OF a b, of "[Frame ''main.main'' ''main.go'' 7]" "[''a'']" "''%s''" "''m''"]
          facade_before_Initialize
            [OF c refl, of "[Frame ''main.main'' ''main.go'' 7]" "[''k'', ''v'']" "''%s''" "''m''"]
    by simp
qed

section \<open>Default\<close>

text \<open>
  C6: Default leaves the package variable as it found it, whether it returns or panics, so
  a facade call after Default reaches the logger it reached before, and after a returned
  Initialize that is the logger of the configuration Initialize resolved. When its build
  succeeds, Default returns a logger of the development preset (minimum level Debug,
  development mode on, no sampling) with stack traces disabled and the same one additional
  frame of caller skip as Initialize applies.
\<close>

theorem Default_leaves_global_logger:
  "snd (Default z st) = st
   \<and> call (snd (Default z st)) lvl a = call st lvl a
   \<and> (fst (Initialize z environment st) = None \<longrightarrow>
        call (snd (Default z (snd (Initialize z environment st)))) lvl a =
          Inr (Sugar \<lparr> conf = Initialize_conf z environment, callerSkip = 1 \<rparr>, lvl, a))
   \<and> (buildError z (Default_conf z) = None \<longrightarrow>
        fst (Default z st) = Inr (Sugar \<lparr> conf = Default_conf z, callerSkip = 1 \<rparr>))
   \<and> Level (Default_conf z) = DebugLevel
   \<and> Development (Default_conf z) = True
   \<and> Sampling (Default_conf z) = None
   \<and> DisableStacktrace (Default_conf z) = True"
proof -
  have "call (snd (Default z (snd (Initialize z environment st)))) lvl a =
          Inr (Sugar \<lparr> conf = Initialize_conf z environment, callerSkip = 1 \<rparr>, lvl, a)"
    if "fst (Initialize z environment st) = None"
  proof -
    from that have "buildError z (Initialize_conf z environment) = None"
      by (simp add: Initialize_fst_None)
    then show ?thesis
      by (simp add: Default_state Initialize_success call_def)
  qed
  moreover have "fst (Default z st) = Inr (Sugar \<lparr> conf = Default_conf z, callerSkip = 1 \<rparr>)"
    if "buildError z (Default_conf z) = None"
    using that by (simp add: Default_success)
  ultimately show ?thesis
    by (simp add: Default_state Default_conf_def NewDevelopmentConfig_def)
qed

theorem Default_leaves_global_logger_witness:
  "fst (Initialize zap_ok ''prod'' initial) = None
   \<and> call (snd (Default zap_ok (snd (Initialize zap_ok ''prod'' initial)))) InfoLevel (Plain [''x'']) =
       Inr (Sugar \<lparr> conf = Initialize_conf zap_ok ''prod'', callerSkip = 1 \<rparr>, InfoLevel, Plain [''x''])
   \<and> fst (Default zap_ok (snd (Initialize zap_ok ''prod'' initial))) =
       Inr (Sugar \<lparr> conf = Default_conf zap_ok, callerSkip = 1 \<rparr>)
   \<and> Level (Initialize_conf zap_ok ''prod'') = InfoLevel
   \<and> Level (Default_conf zap_ok) = DebugLevel"
proof -
  have h: "fst (Initialize zap_ok ''prod'' initial) = None"
    by (simp add: Initialize_fst_None zap_ok_builds)
  have l: "Level (Initialize_conf zap_ok ''prod'') = InfoLevel"
    by (simp add: Initialize_conf_production newProductionConfig_def)
  note d = Default_leaves_global_logger
             [of zap_ok "snd (Initialize zap_ok ''prod'' initial)" InfoLevel "Plain [''x'']" "''prod''"]
  note e = Default_leaves_global_logger
             [of zap_ok initial InfoLevel "Plain [''x'']" "''prod''"]
  from h l d e zap_ok_builds [of "Default_conf zap_ok"] show ?thesis
    by blast
qed

section \<open>Stack traces, encoder fields, caller skip\<close>

text \<open>
  C7: for every label, on the production branch and on the development branch alike, the
  configuration Initialize builds from has stack traces disabled, and so has the logger it
  installs; the presets themselves leave them enabled (the library's default), so this is
  an override. The same holds for the configuration and the logger of Default.
\<close>

theorem stack_traces_disabled:
  "DisableStacktrace (Initialize_conf z environment) = True
   \<and> DisableStacktrace (Default_conf z) = True
   \<and> DisableStacktrace newProductionConfig = False
   \<and> DisableStacktrace (NewDevelopmentConfig z) = False
   \<and> (fst (Initialize z environment st) = None \<longrightarrow>
        (\<exists>l. logger (snd (Initialize z environment st)) = Some l
             \<and> DisableStacktrace (conf (Desugar l)) = True))
   \<and> (fst (Default z st) = Inr l' \<longrightarrow> DisableStacktrace (conf (Desugar l')) = True)"
proof -
  have c: "DisableStacktrace (Initialize_conf z environment) = True"
    by (simp add: Initialize_conf_def Let_def)
  have "\<exists>l. logger (snd (Initialize z environment st)) = Some l
             \<and> DisableStacktrace (conf (Desugar l)) = True"
    if "fst (Initialize z environment st) = None"
  proof -
    from that have "buildError z (Initialize_conf z environment) = None"
      by (simp add: Initialize_fst_None)
    then show ?thesis
      by (simp add: Initialize_success c)
  qed
  moreover have "DisableStacktrace (conf (Desugar l')) = True"
    if "fst (Default z st) = Inr l'"
    using that
    by (cases "buildError z (Default_conf z)")
       (auto simp add: Default_def Build_def WithOptions_def Default_conf_def)
  ultimately show ?thesis
    using c by (simp add: Default_conf_def newProductionConfig_def NewDevelopmentConfig_def)
qed

theorem stack_traces_disabled_witness:
  "fst (Initialize zap_ok ''prod'' initial) = None
   \<and> (\<exists>l. logger (snd (Initialize zap_ok ''prod'' initial)) = Some l
          \<and> DisableStacktrace (conf (Desugar l)) = True)
   \<and> fst (Default zap_ok initial) = Inr (Sugar \<lparr> conf = Default_conf zap_ok, callerSkip = 1 \<rparr>)
   \<and> DisableStacktrace (conf (Desugar (Sugar \<lparr> conf = Default_conf zap_ok, callerSkip = 1 \<rparr>))) = True"
proof -
  have h: "fst (Initialize zap_ok ''prod'' initial) = None"
    by (simp add: Initialize_fst_None zap_ok_builds)
  have d: "fst (Default zap_ok initial) = Inr (Sugar \<lparr> conf = Default_conf zap_ok, callerSkip = 1 \<rparr>)"
    by (simp add: Default_success zap_ok_builds)
  note s = stack_traces_disabled
             [of zap_ok "''prod''" initial "Sugar \<lparr> conf = Default_conf zap_ok, callerSkip = 1 \<rparr>"]
  from h d s show ?thesis
    by blast
qed

text \<open>
  C8: the production encoder configuration, which is the encoder configuration Initialize
  resolves for "production" and "prod", maps time to the key "ts" in ISO 8601 format,
  level to the key "level" in capitals, logger name to the key "logger", caller to the key
  "caller" in short form, message to the key "msg" and stack trace to the key "stacktrace".
\<close>

theorem production_encoder_fields:
  "EncoderConfig (Initialize_conf z ''production'') = newProductionEncoderConfig
   \<and> EncoderConfig (Initialize_conf z ''prod'') = newProductionEncoderConfig
   \<and> TimeKey newProductionEncoderConfig = ''ts''
   \<and> EncodeTime newProductionEncoderConfig = ISO8601TimeEncoder
   \<and> LevelKey newProductionEncoderConfig = ''level''
   \<and> EncodeLevel newProductionEncoderConfig = CapitalLevelEncoder
   \<and> NameKey newProductionEncoderConfig = ''logger''
   \<and> CallerKey newProductionEncoderConfig = ''caller''
   \<and> EncodeCaller newProductionEncoderConfig = ShortCallerEncoder
   \<and> MessageKey newProductionEncoderConfig = ''msg''
   \<and> StacktraceKey newProductionEncoderConfig = ''stacktrace''"
  by (simp add: Initialize_conf_production newProductionConfig_def newProductionEncoderConfig_def)

text \<open>
  The sugared logger that Initialize installs and Default returns, called from a stack of
  at least two frames, attributes the line to the second.
\<close>

lemma invoke_skip_one:
  "callerSkip (Desugar l) = 1 \<Longrightarrow>
   invoke (inner # outer # callers) (Inr (l, lvl, a)) = Inr (l, lvl, a, Some outer)"
  by (simp add: invoke_def reportedCaller_def)

text \<open>
  Used without a function in between, the logger of Default therefore attributes a line
  to the caller of the function that logs, not to that function.
\<close>

lemma Default_logger_called_directly:
  "fst (Default z st) = Inr l \<Longrightarrow>
   reportedCaller (Desugar l) (caller # outer # callers) = Some outer"
  by (cases "buildError z (Default_conf z)")
     (auto simp add: Default_def Build_def WithOptions_def reportedCaller_def)

text \<open>
  C9: for every label, the logger Initialize installs is the built logger made to skip
  exactly one stack frame more than it did. The built logger skips none beyond the
  library's own, and called from a facade function it would attribute the line to the
  facade function; with the one frame more, each of the eighteen facade functions, called
  from any stack, attributes its line to the frame that called the facade function.
  Default makes the same adjustment to the logger it returns, with the same effect when
  that logger is called through a function one frame deep.
\<close>

theorem caller_skip_one:
  "(Build z (Initialize_conf z environment) = Inr log
      \<and> st' = snd (Initialize z environment st)
      \<and> l = Sugar (log\<lparr> callerSkip := callerSkip log + 1 \<rparr>) \<longrightarrow>
      logger st' = Some l
      \<and> callerSkip log = 0
      \<and> reportedCaller log (facade # caller # callers) = Some facade
      \<and> reportedCaller (Desugar l) (facade # caller # callers) = Some caller
      \<and> Debug (caller # callers) st' args =
          Inr (l, DebugLevel, Plain args, Some caller)
      \<and> Debugf (caller # callers) st' template args =
          Inr (l, DebugLevel, Formatted template args, Some caller)
      \<and> Debugw (caller # callers) st' msg args =
          Inr (l, DebugLevel, Structured msg args, Some caller)
      \<and> Info (caller # callers) st' args =
          Inr (l, InfoLevel, Plain args, Some caller)
      \<and> Infof (caller # callers) st' template args =
          Inr (l, InfoLevel, Formatted template args, Some caller)
      \<and> Infow (caller # callers) st' msg args =
          Inr (l, InfoLevel, Structured msg args, Some caller)
      \<and> Warn (caller # callers) st' args =
          Inr (l, WarnLevel, Plain args, Some caller)
      \<and> Warnf (caller # callers) st' template args =
          Inr (l, WarnLevel, Formatted template args, Some caller)
      \<and> Warnw (caller # callers) st' msg args =
          Inr (l, WarnLevel, Structured msg args, Some caller)
      \<and> Error (caller # callers) st' args =
          Inr (l, ErrorLevel, Plain args, Some caller)
      \<and> Errorf (caller # callers) st' template args =
          Inr (l, ErrorLevel, Formatted template args, Some caller)
      \<and> Errorw (caller # callers) st' msg args =
          Inr (l, ErrorLevel, Structured msg args, Some caller)
      \<and> Fatal (caller # callers) st' args =
          Inr (l, FatalLevel, Plain args, Some caller)
      \<and> Fatalf (caller # callers) st' template args =
          Inr (l, FatalLevel, Formatted template args, Some caller)
      \<and> Fatalw (caller # callers) st' msg args =
          Inr (l, FatalLevel, Structured msg args, Some caller)
      \<and> Panic (caller # callers) st' args =
          Inr (l, PanicLevel, Plain args, Some caller)
      \<and> Panicf (caller # callers) st' template args =
          Inr (l, PanicLevel, Formatted template args, Some caller)
      \<and> Panicw (caller # callers) st' msg args =
          Inr (l, PanicLevel, Structured msg args, Some caller))
   \<and> (Build z (Default_conf z) = Inr log'
      \<and> l' = Sugar (log'\<lparr> callerSkip := callerSkip log' + 1 \<rparr>) \<longrightarrow>
      fst (Default z st) = Inr l'
      \<and> callerSkip log' = 0
      \<and> reportedCaller log' (facade # caller # callers) = Some facade
      \<and> reportedCaller (Desugar l') (facade # caller # callers) = Some caller
      \<and> invoke (facade # caller # callers) (Inr (l', lvl, a)) = Inr (l', lvl, a, Some caller))"
proof (intro conjI impI)
  assume h: "Build z (Initialize_conf z environment) = Inr log
      \<and> st' = snd (Initialize z environment st)
      \<and> l = Sugar (log\<lparr> callerSkip := callerSkip log + 1 \<rparr>)"
  then have log: "log = \<lparr> conf = Initialize_conf z environment, callerSkip = 0 \<rparr>"
    and ok: "buildError z (Initialize_conf z environment) = None"
    by (simp_all add: Build_Inr)
  from h log have l: "l = Sugar \<lparr> conf = Initialize_conf z environment, callerSkip = 1 \<rparr>"
    by simp
  from h ok l have st': "logger st' = Some l"
    by (simp add: Initialize_success)
  have skip: "callerSkip (Desugar l) = 1"
    using l by simp
  have c: "call st' lvl a = Inr (l, lvl, a)" for lvl and a :: "'a arguments"
    using st' by (simp add: call_def)
  show "logger st' = Some l"
    by (rule st')
  show "callerSkip log = 0"
    using log by simp
  show "reportedCaller log (facade # caller # callers) = Some facade"
    using log by (simp add: reportedCaller_def)
  show "reportedCaller (Desugar l) (facade # caller # callers) = Some caller"
    using skip by (simp add: reportedCaller_def)
  show "Debug (caller # callers) st' args =
        Inr (l, DebugLevel, Plain args, Some caller)"
    using skip by (simp add: Debug_def c invoke_skip_one)
  show "Debugf (caller # callers) st' template args =
        Inr (l, DebugLevel, Formatted template args, Some caller)"
    using skip by (simp add: Debugf_def c invoke_skip_one)
  show "Debugw (caller # callers) st' msg args =
        Inr (l, DebugLevel, Structured msg args, Some caller)"
    using skip by (simp add: Debugw_def c invoke_skip_one)
  show "Info (caller # callers) st' args =
        Inr (l, InfoLevel, Plain args, Some caller)"
    using skip by (simp add: Info_def c invoke_skip_one)
  show "Infof (caller # callers) st' template args =
        Inr (l, InfoLevel, Formatted template args, Some caller)"
    using skip by (simp add: Infof_def c invoke_skip_one)
  show "Infow (caller # callers) st' msg args =
        Inr (l, InfoLevel, Structured msg args, Some caller)"
    using skip by (simp add: Infow_def c invoke_skip_one)
  show "Warn (caller # callers) st' args =
        Inr (l, WarnLevel, Plain args, Some caller)"
    using skip by (simp add: Warn_def c invoke_skip_one)
  show "Warnf (caller # callers) st' template args =
        Inr (l, WarnLevel, Formatted template args, Some caller)"
    using skip by (simp add: Warnf_def c invoke_skip_one)
  show "Warnw (caller # callers) st' msg args =
        Inr (l, WarnLevel, Structured msg args, Some caller)"
    using skip by (simp add: Warnw_def c invoke_skip_one)
  show "Error (caller # callers) st' args =
        Inr (l, ErrorLevel, Plain args, Some caller)"
    using skip by (simp add: Error_def c invoke_skip_one)
  show "Errorf (caller # callers) st' template args =
        Inr (l, ErrorLevel, Formatted template args, Some caller)"
    using skip by (simp add: Errorf_def c invoke_skip_one)
  show "Errorw (caller # callers) st' msg args =
        Inr (l, ErrorLevel, Structured msg args, Some caller)"
    using skip by (simp add: Errorw_def c invoke_skip_one)
  show "Fatal (caller # callers) st' args =
        Inr (l, FatalLevel, Plain args, Some caller)"
    using skip by (simp add: Fatal_def c invoke_skip_one)
  show "Fatalf (caller # callers) st' template args =
        Inr (l, FatalLevel, Formatted template args, Some caller)"
    using skip by (simp add: Fatalf_def c invoke_skip_one)
  show "Fatalw (caller # callers) st' msg args =
        Inr (l, FatalLevel, Structured msg args, Some caller)"
    using skip by (simp add: Fatalw_def c invoke_skip_one)
  show "Panic (caller # callers) st' args =
        Inr (l, PanicLevel, Plain args, Some caller)"
    using skip by (simp add: Panic_def c invoke_skip_one)
  show "Panicf (caller # callers) st' template args =
        Inr (l, PanicLevel, Formatted template args, Some caller)"
    using skip by (simp add: Panicf_def c invoke_skip_one)
  show "Panicw (caller # callers) st' msg args =
        Inr (l, PanicLevel, Structured msg args, Some caller)"
    using skip by (simp add: Panicw_def c invoke_skip_one)
next
  assume h: "Build z (Default_conf z) = Inr log'
      \<and> l' = Sugar (log'\<lparr> callerSkip := callerSkip log' + 1 \<rparr>)"
  then have log': "log' = \<lparr> conf = Default_conf z, callerSkip = 0 \<rparr>"
    and ok: "buildError z (Default_conf z) = None"
    by (simp_all add: Build_Inr)
  from h log' have l': "l' = Sugar \<lparr> conf = Default_conf z, callerSkip = 1 \<rparr>"
    by simp
  have skip: "callerSkip (Desugar l') = 1"
    using l' by simp
  show "fst (Default z st) = Inr l'"
    using ok l' by (simp add: Default_success)
  show "callerSkip log' = 0"
    using log' by simp
  show "reportedCaller log' (facade # caller # callers) = Some facade"
    using log' by (simp add: reportedCaller_def)
  show "reportedCaller (Desugar l') (facade # caller # callers) = Some caller"
    using skip by (simp add: reportedCaller_def)
  show "invoke (facade # caller # callers) (Inr (l', lvl, a)) = Inr (l', lvl, a, Some caller)"
    using skip by (rule invoke_skip_one)
qed

theorem caller_skip_one_witness:
  "Build zap_ok (Initialize_conf zap_ok ''test'') =
     Inr \<lparr> conf = Initialize_conf zap_ok ''test'', callerSkip = 0 \<rparr>
   \<and> logger (snd (Initialize zap_ok ''test'' initial)) =
       Some (Sugar \<lparr> conf = Initialize_conf zap_ok ''test'', callerSkip = 1 \<rparr>)
   \<and> Infof [Frame ''main.run'' ''main.go'' 12, Frame ''main.main'' ''main.go'' 5]
        (snd (Initialize zap_ok ''test'' initial)) ''%d'' [''7''] =
       Inr (Sugar \<lparr> conf = Initialize_conf zap_ok ''test'', callerSkip = 1 \<rparr>,
            InfoLevel, Formatted ''%d'' [''7''], Some (Frame ''main.run'' ''main.go'' 12))
   \<and> Build zap_ok (Default_conf zap_ok) = Inr \<lparr> conf = Default_conf zap_ok, callerSkip = 0 \<rparr>
   \<and> fst (Default zap_ok initial) = Inr (Sugar \<lparr> conf = Default_conf zap_ok, callerSkip = 1 \<rparr>)
   \<and> reportedCaller \<lparr> conf = Default_conf zap_ok, callerSkip = 1 \<rparr>
        [Frame ''app.logInfo'' ''app.go'' 30, Frame ''main.run'' ''main.go'' 12,
         Frame ''main.main'' ''main.go'' 5] =
       Some (Frame ''main.run'' ''main.go'' 12)"
proof -
  have b1: "Build zap_ok (Initialize_conf zap_ok ''test'') =
              Inr \<lparr> conf = Initialize_conf zap_ok ''test'', callerSkip = 0 \<rparr>"
    by (simp add: Build_Inr zap_ok_builds)
  have b2: "Build zap_ok (Default_conf zap_ok) = Inr \<lparr> conf = Default_conf zap_ok, callerSkip = 0 \<rparr>"
    by (simp add: Build_Inr zap_ok_builds)
  note t = caller_skip_one
    [of zap_ok "''test''" "\<lparr> conf = Initialize_conf zap_ok ''test'', callerSkip = 0 \<rparr>"
        "snd (Initialize zap_ok ''test'' initial)" initial
        "Sugar \<lparr> conf = Initialize_conf zap_ok ''test'', callerSkip = 1 \<rparr>"
        "Frame ''app.logInfo'' ''app.go'' 30" "Frame ''main.run'' ''main.go'' 12"
        "[Frame ''main.main'' ''main.go'' 5]" "[''7'']" "''%d'' " "''m''"
        "\<lparr> conf = Default_conf zap_ok, callerSkip = 0 \<rparr>"
        "Sugar \<lparr> conf = Default_conf zap_ok, callerSkip = 1 \<rparr>"
        InfoLevel "Plain [''7'']"]
  from b1 b2 t show ?thesis
    by simp
qed

section \<open>The comparison of the label\<close>

text \<open>
  C10: Initialize compares the label with "production" and "prod" by exact string
  equality. It resolves the production configuration for these two strings and for no
  other, and the development configuration for every other string; so a label that
  differs from them in case or by surrounding white space, such as "Production", "PROD"
  or " prod", gets the development configuration.
\<close>

theorem environment_comparison_exact:
  "(Initialize_conf z environment = newProductionConfig\<lparr> DisableStacktrace := True \<rparr>)
     = (environment = ''production'' \<or> environment = ''prod'')
   \<and> (Initialize_conf z environment = (NewDevelopmentConfig z)\<lparr> DisableStacktrace := True \<rparr>)
     = (environment \<noteq> ''production'' \<and> environment \<noteq> ''prod'')
   \<and> Initialize_conf z ''Production'' = (NewDevelopmentConfig z)\<lparr> DisableStacktrace := True \<rparr>
   \<and> Initialize_conf z ''PROD'' = (NewDevelopmentConfig z)\<lparr> DisableStacktrace := True \<rparr>
   \<and> Initialize_conf z '' prod'' = (NewDevelopmentConfig z)\<lparr> DisableStacktrace := True \<rparr>"
proof -
  have ne: "newProductionConfig\<lparr> DisableStacktrace := True \<rparr>
              \<noteq> (NewDevelopmentConfig z)\<lparr> DisableStacktrace := True \<rparr>"
    by (simp add: newProductionConfig_def NewDevelopmentConfig_def)
  show ?thesis
  proof (cases "environment = ''production'' \<or> environment = ''prod''")
    case True
    then show ?thesis
      using ne by (auto simp add: Initialize_conf_production Initialize_conf_development Default_conf_def)
  next
    case False
    then show ?thesis
      using ne by (auto simp add: Initialize_conf_development Default_conf_def)
  qed
qed

end
